theory Spec2Isabelle
  imports Complex_Main
begin

section \<open>Python values and exceptions\<close>

text \<open>
  The module \<^verbatim>\<open>now_payments.py\<close> handles dictionaries decoded from JSON and builds
  dictionaries that are encoded to JSON. A Python value is a tree; a dictionary is an
  association list in insertion order, looked up by its first matching key. The type
  parameter \<open>'f\<close> stands for Python's \<^verbatim>\<open>float\<close>: nothing is assumed about it.
\<close>

datatype 'f pyval =
    PNone
  | PBool bool
  | PInt int
  | PFloat 'f
  | PStr string
  | PList "'f pyval list"
  | PDict "(string \<times> 'f pyval) list"

text \<open>
  The exceptions that can leave a method. \<open>RequestException\<close> is a failure raised by
  \<^verbatim>\<open>requests.get\<close> or \<^verbatim>\<open>requests.post\<close> itself (connection error, timeout, ...), with
  its message; \<open>HTTPError\<close> is what \<^verbatim>\<open>raise_for_status\<close> raises, with the status code;
  \<open>JSONDecodeError\<close> is what \<^verbatim>\<open>response.json()\<close> raises on a body that is not JSON.
\<close>

datatype py_error =
    RequestException string
  | HTTPError nat
  | JSONDecodeError
  | ValueError string
  | TypeError
  | AttributeError
  | IndexError
  | OverflowError

text \<open>Sequencing of statements that may raise: the first exception ends the block.\<close>

definition and_then :: "py_error + 'a \<Rightarrow> ('a \<Rightarrow> py_error + 'b) \<Rightarrow> py_error + 'b" where
  "and_then m f = (case m of Inl e \<Rightarrow> Inl e | Inr x \<Rightarrow> f x)"

section \<open>The HTTP layer\<close>

datatype http_method = GET | POST

record 'f http_request =
  http_method :: http_method
  url :: string
  query :: "(string \<times> string) list"
  json_payload :: "'f pyval option"
  req_headers :: "(string \<times> string) list"

text \<open>
  A response as the methods read it: the status code, and the decoded JSON body
  (\<open>None\<close> when the body is not JSON).
\<close>

record 'f response =
  status_code :: nat
  body_json :: "'f pyval option"

datatype 'f http_outcome =
    Raised string
  | Responded "'f response"

section \<open>The environment of a call\<close>

text \<open>
  Everything a method reads from outside the module: the remote service and the network
  (\<open>net\<close>), the clock (\<^verbatim>\<open>datetime.now()\<close>, read as a timestamp and as an ISO-8601
  text), and the Python built-ins whose results depend on the float type or on the
  installed library:
  \<^item> \<open>float_of_str\<close> is \<^verbatim>\<open>float(s)\<close> on a string (\<open>None\<close>: ValueError),
  \<^item> \<open>float_of_int\<close> is \<^verbatim>\<open>float(i)\<close> on an integer (\<open>None\<close>: OverflowError),
  \<^item> \<open>float_nonzero\<close> is the truth value of a float,
  \<^item> \<open>str_other\<close> is \<^verbatim>\<open>str(v)\<close> on numbers, lists and dictionaries,
  \<^item> \<open>json_error_is_request_exception\<close> says whether the installed \<^verbatim>\<open>requests\<close> derives
    its JSON decoding error from \<^verbatim>\<open>RequestException\<close> (it does from version 2.27 on).
\<close>

record 'f env =
  net :: "'f http_request \<Rightarrow> 'f http_outcome"
  now_timestamp :: 'f
  now_isoformat :: string
  float_of_str :: "string \<Rightarrow> 'f option"
  float_of_int :: "int \<Rightarrow> 'f option"
  float_nonzero :: "'f \<Rightarrow> bool"
  str_other :: "'f pyval \<Rightarrow> string"
  json_error_is_request_exception :: bool

section \<open>The client and the observable state\<close>

text \<open>
  The instance of \<^verbatim>\<open>NowPaymentsAPI\<close>: the class attribute \<^verbatim>\<open>BASE_URL\<close>, read through
  \<^verbatim>\<open>self\<close>, and the two attributes set by \<^verbatim>\<open>__init__\<close>.
\<close>

record client =
  BASE_URL :: string
  api_key :: string
  headers :: "(string \<times> string) list"

text \<open>
  The state a call can change: the instance, the records written with
  \<^verbatim>\<open>logger.error\<close> (the prefix of the message and the exception whose \<^verbatim>\<open>str\<close> follows
  it), and the requests issued, oldest first.
\<close>

record 'f world =
  self :: client
  logged :: "(string \<times> py_error) list"
  sent :: "'f http_request list"

definition init :: "string \<Rightarrow> client" where
  "init config_key =
     \<lparr>BASE_URL = ''https://api.nowpayments.io/v1'',
      api_key = config_key,
      headers = [(''x-api-key'', config_key), (''Content-Type'', ''application/json'')]\<rparr>"

section \<open>Library calls used by the methods\<close>

definition dict_get :: "(string \<times> 'f pyval) list \<Rightarrow> string \<Rightarrow> 'f pyval" where
  "dict_get d k = (case map_of d k of None \<Rightarrow> PNone | Some v \<Rightarrow> v)"

text \<open>\<^verbatim>\<open>v.get(k, default)\<close> on a decoded JSON value: only a dictionary has \<^verbatim>\<open>get\<close>.\<close>

definition py_get :: "'f pyval \<Rightarrow> string \<Rightarrow> 'f pyval \<Rightarrow> py_error + 'f pyval" where
  "py_get v k dflt =
     (case v of
        PDict d \<Rightarrow> Inr (case map_of d k of None \<Rightarrow> dflt | Some x \<Rightarrow> x)
      | _ \<Rightarrow> Inl AttributeError)"

text \<open>The truth value of a Python value, as \<^verbatim>\<open>not\<close> reads it.\<close>

definition truthy :: "'f env \<Rightarrow> 'f pyval \<Rightarrow> bool" where
  "truthy env v =
     (case v of
        PNone \<Rightarrow> False
      | PBool b \<Rightarrow> b
      | PInt i \<Rightarrow> i \<noteq> 0
      | PFloat x \<Rightarrow> float_nonzero env x
      | PStr s \<Rightarrow> s \<noteq> []
      | PList xs \<Rightarrow> xs \<noteq> []
      | PDict d \<Rightarrow> d \<noteq> [])"

text \<open>\<^verbatim>\<open>str(v)\<close>, which is also how an f-string formats \<^verbatim>\<open>{v}\<close>.\<close>

definition py_str :: "'f env \<Rightarrow> 'f pyval \<Rightarrow> string" where
  "py_str env v =
     (case v of
        PStr s \<Rightarrow> s
      | PNone \<Rightarrow> ''None''
      | PBool b \<Rightarrow> (if b then ''True'' else ''False'')
      | _ \<Rightarrow> str_other env v)"

text \<open>\<^verbatim>\<open>float(v)\<close>.\<close>

definition py_float :: "'f env \<Rightarrow> 'f pyval \<Rightarrow> py_error + 'f" where
  "py_float env v =
     (case v of
        PFloat x \<Rightarrow> Inr x
      | PInt i \<Rightarrow> (case float_of_int env i of None \<Rightarrow> Inl OverflowError | Some x \<Rightarrow> Inr x)
      | PBool b \<Rightarrow>
          (case float_of_int env (if b then 1 else 0) of
             None \<Rightarrow> Inl OverflowError | Some x \<Rightarrow> Inr x)
      | PStr s \<Rightarrow>
          (case float_of_str env s of
             None \<Rightarrow> Inl (ValueError ''could not convert string to float'')
           | Some x \<Rightarrow> Inr x)
      | _ \<Rightarrow> Inl TypeError)"

text \<open>
  \<^verbatim>\<open>s.split(sep)\<close> with a one-character separator: the pieces between the separators,
  empty pieces kept; the result is never empty.
\<close>

fun str_split :: "char \<Rightarrow> string \<Rightarrow> string list" where
  "str_split sep [] = [[]]"
| "str_split sep (c # cs) =
     (if c = sep then [] # str_split sep cs
      else (case str_split sep cs of
              [] \<Rightarrow> [[c]]
            | t # ts \<Rightarrow> (c # t) # ts))"

text \<open>\<^verbatim>\<open>v.split(sep)\<close> on a value: only a string has \<^verbatim>\<open>split\<close>.\<close>

definition py_split :: "'f pyval \<Rightarrow> char \<Rightarrow> py_error + string list" where
  "py_split v sep = (case v of PStr s \<Rightarrow> Inr (str_split sep s) | _ \<Rightarrow> Inl AttributeError)"

text \<open>\<^verbatim>\<open>xs[i]\<close>: a negative index counts from the end, an index out of range raises.\<close>

definition py_index :: "'a list \<Rightarrow> int \<Rightarrow> py_error + 'a" where
  "py_index xs i =
     (let k = (if i < 0 then i + int (length xs) else i)
      in if k < 0 \<or> int (length xs) \<le> k then Inl IndexError else Inr (xs ! nat k))"

text \<open>
  \<^verbatim>\<open>response.raise_for_status()\<close> of the \<^verbatim>\<open>requests\<close> library raises an
  \<^verbatim>\<open>HTTPError\<close> exactly for the client errors (400 to 499) and the server errors
  (500 to 599); every other status passes.
\<close>

definition raise_for_status :: "'f response \<Rightarrow> py_error + 'f response" where
  "raise_for_status r =
     (if 400 \<le> status_code r \<and> status_code r < 600
      then Inl (HTTPError (status_code r)) else Inr r)"

definition response_json :: "'f response \<Rightarrow> py_error + 'f pyval" where
  "response_json r = (case body_json r of None \<Rightarrow> Inl JSONDecodeError | Some v \<Rightarrow> Inr v)"

text \<open>Which exceptions \<^verbatim>\<open>except requests.exceptions.RequestException\<close> catches.\<close>

definition is_RequestException :: "'f env \<Rightarrow> py_error \<Rightarrow> bool" where
  "is_RequestException env e =
     (case e of
        RequestException m \<Rightarrow> True
      | HTTPError s \<Rightarrow> True
      | JSONDecodeError \<Rightarrow> json_error_is_request_exception env
      | _ \<Rightarrow> False)"

definition send :: "'f env \<Rightarrow> 'f http_request \<Rightarrow> 'f world \<Rightarrow> (py_error + 'f response) \<times> 'f world" where
  "send env req w =
     ((case net env req of
         Raised m \<Rightarrow> Inl (RequestException m)
       | Responded r \<Rightarrow> Inr r),
      w\<lparr>sent := sent w @ [req]\<rparr>)"

definition requests_post ::
  "'f env \<Rightarrow> string \<Rightarrow> 'f pyval \<Rightarrow> (string \<times> string) list \<Rightarrow> 'f world
     \<Rightarrow> (py_error + 'f response) \<times> 'f world" where
  "requests_post env endpoint payload hdrs w =
     send env \<lparr>http_method = POST, url = endpoint, query = [],
               json_payload = Some payload, req_headers = hdrs\<rparr> w"

definition requests_get ::
  "'f env \<Rightarrow> string \<Rightarrow> (string \<times> string) list \<Rightarrow> (string \<times> string) list \<Rightarrow> 'f world
     \<Rightarrow> (py_error + 'f response) \<times> 'f world" where
  "requests_get env endpoint params hdrs w =
     send env \<lparr>http_method = GET, url = endpoint, query = params,
               json_payload = None, req_headers = hdrs\<rparr> w"

definition logger_error :: "string \<Rightarrow> py_error \<Rightarrow> 'f world \<Rightarrow> 'f world" where
  "logger_error prefix e w = w\<lparr>logged := logged w @ [(prefix, e)]\<rparr>"

section \<open>The methods of \<^verbatim>\<open>NowPaymentsAPI\<close>\<close>

definition create_payment ::
  "'f env \<Rightarrow> 'f pyval \<Rightarrow> 'f pyval \<Rightarrow> 'f world \<Rightarrow> (py_error + 'f pyval) \<times> 'f world" where
  "create_payment env price_amount user_id w =
     (let endpoint = BASE_URL (self w) @ ''/payment'';
          payload = PDict
            [(''price_amount'', price_amount),
             (''price_currency'', PStr ''usd''),
             (''pay_currency'', PStr ''usdt''),
             (''order_id'',
                PStr (''deposit_'' @ py_str env user_id @ ''_''
                        @ py_str env (PFloat (now_timestamp env)))),
             (''order_description'', PStr (''Deposit for user '' @ py_str env user_id)),
             (''ipn_callback_url'', PStr ''https://your-domain.com/nowpayments/callback''),
             (''success_url'', PStr ''https://your-domain.com/deposit/success''),
             (''cancel_url'', PStr ''https://your-domain.com/deposit/cancel'')];
          (response, w1) = requests_post env endpoint payload (headers (self w)) w
      in case and_then (and_then response raise_for_status) response_json of
           Inr v \<Rightarrow> (Inr v, w1)
         | Inl e \<Rightarrow>
             if is_RequestException env e
             then (Inl e, logger_error ''Error creating payment: '' e w1)
             else (Inl e, w1))"

definition create_withdrawal ::
  "'f env \<Rightarrow> 'f pyval \<Rightarrow> 'f pyval \<Rightarrow> 'f pyval \<Rightarrow> 'f world
     \<Rightarrow> (py_error + 'f pyval) \<times> 'f world" where
  "create_withdrawal env address amount user_id w =
     (let endpoint = BASE_URL (self w) @ ''/payout'';
          payload = PDict
            [(''withdrawals'', PList [PDict
               [(''address'', address),
                (''currency'', PStr ''usdt''),
                (''amount'', amount),
                (''ipn_callback_url'',
                   PStr ''https://your-domain.com/nowpayments/payout-callback''),
                (''payload'', PDict
                   [(''user_id'', user_id),
                    (''timestamp'', PStr (now_isoformat env))])]])];
          (response, w1) = requests_post env endpoint payload (headers (self w)) w
      in case and_then (and_then response raise_for_status) response_json of
           Inr v \<Rightarrow> (Inr v, w1)
         | Inl e \<Rightarrow>
             if is_RequestException env e
             then (Inl e, logger_error ''Error creating withdrawal: '' e w1)
             else (Inl e, w1))"

definition get_payment_status ::
  "'f env \<Rightarrow> 'f pyval \<Rightarrow> 'f world \<Rightarrow> (py_error + 'f pyval) \<times> 'f world" where
  "get_payment_status env payment_id w =
     (let endpoint = BASE_URL (self w) @ ''/payment/'' @ py_str env payment_id;
          (response, w1) = requests_get env endpoint [] (headers (self w)) w
      in case and_then (and_then response raise_for_status) response_json of
           Inr v \<Rightarrow> (Inr v, w1)
         | Inl e \<Rightarrow>
             if is_RequestException env e
             then (Inl e, logger_error ''Error getting payment status: '' e w1)
             else (Inl e, w1))"

definition get_minimum_payment_amount ::
  "'f env \<Rightarrow> 'f world \<Rightarrow> (py_error + 'f) \<times> 'f world" where
  "get_minimum_payment_amount env w =
     (let endpoint = BASE_URL (self w) @ ''/min-amount'';
          params = [(''currency_from'', ''usdt'')];
          (response, w1) = requests_get env endpoint params (headers (self w)) w
      in case and_then (and_then (and_then (and_then response raise_for_status) response_json)
                (\<lambda>j. py_get j ''min_amount'' (PInt 0))) (py_float env) of
           Inr x \<Rightarrow> (Inr x, w1)
         | Inl e \<Rightarrow>
             if is_RequestException env e
             then (Inl e, logger_error ''Error getting minimum payment amount: '' e w1)
             else (Inl e, w1))"

definition verify_callback ::
  "'f env \<Rightarrow> (string \<times> 'f pyval) list \<Rightarrow> 'f world \<Rightarrow> (py_error + bool) \<times> 'f world" where
  "verify_callback env ipn_data w =
     (let auth_key = dict_get ipn_data ''verification_key'';
          endpoint = BASE_URL (self w) @ ''/payment-verification/'' @ py_str env auth_key;
          (response, w1) = requests_get env endpoint [] (headers (self w)) w
      in case and_then (and_then (and_then response raise_for_status) response_json)
                (\<lambda>j. py_get j ''verification_status'' PNone) of
           Inr v \<Rightarrow> (Inr (v = PStr ''confirmed''), w1)
         | Inl e \<Rightarrow>
             if is_RequestException env e
             then (Inr False, logger_error ''Error verifying callback: '' e w1)
             else (Inl e, w1))"

definition process_callback ::
  "'f env \<Rightarrow> (string \<times> 'f pyval) list \<Rightarrow> 'f world \<Rightarrow> (py_error + 'f pyval) \<times> 'f world" where
  "process_callback env callback_data w =
     (let payment_status = dict_get callback_data ''payment_status'';
          order_id = dict_get callback_data ''order_id'';
          result =
            (if \<not> truthy env order_id \<or> \<not> truthy env payment_status
             then Inl (ValueError ''Invalid callback data'')
             else and_then (and_then (py_split order_id CHR ''_'') (\<lambda>toks. py_index toks 1))
                    (\<lambda>user_id. Inr (PDict
                       [(''user_id'', PStr user_id),
                        (''status'', payment_status),
                        (''amount'', dict_get callback_data ''actually_paid''),
                        (''currency'', dict_get callback_data ''pay_currency''),
                        (''timestamp'', dict_get callback_data ''created_at'')])))
      in case result of
           Inr v \<Rightarrow> (Inr v, w)
         | Inl e \<Rightarrow> (Inl e, logger_error ''Error processing callback data: '' e w))"

section \<open>Observations and example environments\<close>

text \<open>
  \<open>answered_with env w r\<close>: the remote service answered the last request issued in
  \<open>w\<close> with the response \<open>r\<close>; \<open>failed_with env w m\<close>: that request raised a
  transport failure with message \<open>m\<close>.
\<close>

definition answered_with :: "'f env \<Rightarrow> 'f world \<Rightarrow> 'f response \<Rightarrow> bool" where
  "answered_with env w r = (sent w \<noteq> [] \<and> net env (last (sent w)) = Responded r)"

definition failed_with :: "'f env \<Rightarrow> 'f world \<Rightarrow> string \<Rightarrow> bool" where
  "failed_with env w m = (sent w \<noteq> [] \<and> net env (last (sent w)) = Raised m)"

text \<open>A field of the JSON body of the last request issued.\<close>

definition last_payload_field :: "'f world \<Rightarrow> string \<Rightarrow> 'f pyval" where
  "last_payload_field w k =
     (if sent w = [] then PNone
      else (case json_payload (last (sent w)) of
              Some (PDict d) \<Rightarrow> dict_get d k
            | _ \<Rightarrow> PNone))"

text \<open>
  A concrete environment for the examples: floats are rationals, the clock stands at
  1700000000, which prints as \<^verbatim>\<open>1700000000.0\<close>, and the only text \<^verbatim>\<open>float\<close> is asked to
  read in the examples, \<^verbatim>\<open>5.5\<close>, is read as eleven halves. The remote service is the
  argument.
\<close>

definition example_env :: "(rat http_request \<Rightarrow> rat http_outcome) \<Rightarrow> rat env" where
  "example_env service =
     \<lparr>net = service,
      now_timestamp = 1700000000,
      now_isoformat = ''2023-11-14T22:13:20'',
      float_of_str = (\<lambda>s. if s = ''5.5'' then Some (11 / 2) else None),
      float_of_int = (\<lambda>i. Some (of_int i)),
      float_nonzero = (\<lambda>x. x \<noteq> 0),
      str_other = (\<lambda>v. ''1700000000.0''),
      json_error_is_request_exception = True\<rparr>"

definition example_world :: "rat world" where
  "example_world = \<lparr>self = init ''secret'', logged = [], sent = []\<rparr>"

text \<open>The callback of the specification's example.\<close>

definition spec_callback :: "(string \<times> rat pyval) list" where
  "spec_callback =
     [(''order_id'', PStr ''deposit_abc123_1700000000.0''),
      (''payment_status'', PStr ''finished''),
      (''actually_paid'', PStr ''10.0''),
      (''pay_currency'', PStr ''usdt''),
      (''created_at'', PStr ''2023-11-14T00:00:00Z'')]"

text \<open>The \<^verbatim>\<open>user_id\<close> entry of what \<open>process_callback\<close> returned, if it returned.\<close>

definition extracted_user_id :: "py_error + 'f pyval \<Rightarrow> 'f pyval option" where
  "extracted_user_id res =
     (case res of Inr (PDict d) \<Rightarrow> map_of d ''user_id'' | _ \<Rightarrow> None)"

text \<open>
  The response is a JSON object whose \<^verbatim>\<open>verification_status\<close> is the string
  \<^verbatim>\<open>confirmed\<close>.
\<close>

definition reports_confirmed :: "'f response \<Rightarrow> bool" where
  "reports_confirmed r =
     (case body_json r of
        Some (PDict d) \<Rightarrow> map_of d ''verification_status'' = Some (PStr ''confirmed'')
      | _ \<Rightarrow> False)"

section \<open>Splitting an order id\<close>

lemma str_split_ne: "str_split c s \<noteq> []"
  by (induction s) (auto split: list.splits)

lemma str_split_no_sep: "c \<notin> set s \<Longrightarrow> str_split c s = [s]"
  by (induction s) auto

lemma str_split_hd: "hd (str_split c s) = takeWhile (\<lambda>x. x \<noteq> c) s"
  using str_split_ne [of c] by (induction s) (auto split: list.splits)

lemma str_split_prefix:
  "c \<notin> set p \<Longrightarrow> str_split c (p @ c # rest) = p # str_split c rest"
  by (induction p) auto

lemma str_split_deposit:
  "str_split CHR ''_'' (''deposit_'' @ rest) = ''deposit'' # str_split CHR ''_'' rest"
  using str_split_prefix [of "CHR ''_''" "''deposit''" rest] by simp

lemma second_token:
  "\<exists>ts. str_split CHR ''_'' (''deposit_'' @ u @ ''_'' @ t)
         = ''deposit'' # takeWhile (\<lambda>x. x \<noteq> CHR ''_'') u # ts"
proof -
  let ?s = "str_split CHR ''_'' (u @ ''_'' @ t)"
  have "?s \<noteq> []" by (rule str_split_ne)
  then obtain a ts where s: "?s = a # ts" by (cases ?s) auto
  have "hd ?s = takeWhile (\<lambda>x. x \<noteq> CHR ''_'') (u @ ''_'' @ t)" by (rule str_split_hd)
  also have "\<dots> = takeWhile (\<lambda>x. x \<noteq> CHR ''_'') u"
    by (induction u) auto
  finally have "a = takeWhile (\<lambda>x. x \<noteq> CHR ''_'') u" using s by simp
  with s show ?thesis by (simp add: str_split_deposit)
qed

section \<open>Processing a callback\<close>

lemma process_callback_ok:
  assumes "map_of d ''order_id'' = Some (PStr s)" and "s \<noteq> []"
    and "str_split CHR ''_'' s = a # b # ts"
    and "truthy env (dict_get d ''payment_status'')"
  shows "process_callback env d w =
     (Inr (PDict
        [(''user_id'', PStr b),
         (''status'', dict_get d ''payment_status''),
         (''amount'', dict_get d ''actually_paid''),
         (''currency'', dict_get d ''pay_currency''),
         (''timestamp'', dict_get d ''created_at'')]), w)"
  using assms
  by (simp add: process_callback_def dict_get_def truthy_def py_split_def py_index_def
      and_then_def)

text \<open>
  Claim C3. When \<^verbatim>\<open>order_id\<close> or \<^verbatim>\<open>payment_status\<close> is missing from the callback
  dictionary, \<open>process_callback\<close> raises \<^verbatim>\<open>ValueError("Invalid callback data")\<close> and
  returns no result; the error is logged once before it is raised again.
\<close>

theorem process_callback_missing_field:
  assumes "map_of callback_data ''order_id'' = None
         \<or> map_of callback_data ''payment_status'' = None"
  shows "process_callback env callback_data w =
     (Inl (ValueError ''Invalid callback data''),
      w\<lparr>logged := logged w
           @ [(''Error processing callback data: '', ValueError ''Invalid callback data'')]\<rparr>)"
  using assms
  by (auto simp: process_callback_def dict_get_def truthy_def logger_error_def)

text \<open>The example of the claim: a callback that has only \<^verbatim>\<open>payment_status\<close>.\<close>

theorem process_callback_missing_field_witness:
  "map_of [(''payment_status'', PStr ''finished'' :: rat pyval)] ''order_id'' = None
   \<and> process_callback (example_env (\<lambda>_. Raised ''down''))
        [(''payment_status'', PStr ''finished'')] example_world =
       (Inl (ValueError ''Invalid callback data''),
        example_world\<lparr>logged := logged example_world
           @ [(''Error processing callback data: '', ValueError ''Invalid callback data'')]\<rparr>)"
  using process_callback_missing_field
    [of "[(''payment_status'', PStr ''finished'' :: rat pyval)]"
        "example_env (\<lambda>_. Raised ''down'')" example_world]
  by simp

text \<open>
  Claim C9. A callback that passes the required-field check can still fail: when
  \<^verbatim>\<open>order_id\<close> is a non-empty string without an underscore (and \<^verbatim>\<open>payment_status\<close> is
  true), \<^verbatim>\<open>order_id.split('_')\<close> has one element, the index 1 is out of range, and
  \<open>process_callback\<close> raises \<^verbatim>\<open>IndexError\<close>, not the \<^verbatim>\<open>ValueError\<close> of the check. The
  handler logs it and raises it again.
\<close>

theorem process_callback_index_error:
  assumes "map_of callback_data ''order_id'' = Some (PStr s)"
    and "s \<noteq> []" and "CHR ''_'' \<notin> set s"
    and "truthy env (dict_get callback_data ''payment_status'')"
  shows "process_callback env callback_data w =
     (Inl IndexError,
      w\<lparr>logged := logged w @ [(''Error processing callback data: '', IndexError)]\<rparr>)"
  using assms
  by (simp add: process_callback_def dict_get_def truthy_def py_split_def py_index_def
      and_then_def str_split_no_sep logger_error_def)

text \<open>The input of the claim: \<^verbatim>\<open>{order_id: "deposit", payment_status: "finished"}\<close>.\<close>

theorem process_callback_index_error_witness:
  "map_of [(''order_id'', PStr ''deposit'' :: rat pyval), (''payment_status'', PStr ''finished'')]
     ''order_id'' = Some (PStr ''deposit'')
   \<and> ''deposit'' \<noteq> []
   \<and> CHR ''_'' \<notin> set ''deposit''
   \<and> truthy (example_env (\<lambda>_. Raised ''down''))
       (dict_get [(''order_id'', PStr ''deposit''), (''payment_status'', PStr ''finished'')]
          ''payment_status'')
   \<and> process_callback (example_env (\<lambda>_. Raised ''down''))
        [(''order_id'', PStr ''deposit''), (''payment_status'', PStr ''finished'')]
        example_world =
       (Inl IndexError,
        example_world\<lparr>logged := logged example_world
           @ [(''Error processing callback data: '', IndexError)]\<rparr>)"
  using process_callback_index_error
    [of "[(''order_id'', PStr ''deposit'' :: rat pyval), (''payment_status'', PStr ''finished'')]"
        "''deposit''" "example_env (\<lambda>_. Raised ''down'')" example_world]
  by (simp add: dict_get_def truthy_def)

text \<open>
  Claim C2, as amended. For every callback dictionary whose \<^verbatim>\<open>order_id\<close> has the form
  \<^verbatim>\<open>deposit_<userId>_<timestamp>\<close> and whose \<^verbatim>\<open>payment_status\<close> counts as true in Python
  (it is not \<^verbatim>\<open>None\<close>, \<^verbatim>\<open>False\<close>, zero or empty), \<open>process_callback\<close> returns exactly
  the dictionary with \<^verbatim>\<open>user_id\<close> the second underscore-separated piece of
  \<^verbatim>\<open>order_id\<close>, \<^verbatim>\<open>status\<close> the payment status, \<^verbatim>\<open>amount\<close>, \<^verbatim>\<open>currency\<close> and
  \<^verbatim>\<open>timestamp\<close> what \<^verbatim>\<open>get\<close> finds under \<^verbatim>\<open>actually_paid\<close>, \<^verbatim>\<open>pay_currency\<close> and
  \<^verbatim>\<open>created_at\<close>; it sends no request and logs nothing.
\<close>

theorem process_callback_normalizes:
  assumes "map_of callback_data ''order_id'' = Some (PStr (''deposit_'' @ u @ ''_'' @ t))"
    and "truthy env (dict_get callback_data ''payment_status'')"
  shows "process_callback env callback_data w =
     (Inr (PDict
        [(''user_id'', PStr (str_split CHR ''_'' (''deposit_'' @ u @ ''_'' @ t) ! 1)),
         (''status'', dict_get callback_data ''payment_status''),
         (''amount'', dict_get callback_data ''actually_paid''),
         (''currency'', dict_get callback_data ''pay_currency''),
         (''timestamp'', dict_get callback_data ''created_at'')]), w)
     \<and> 1 < length (str_split CHR ''_'' (''deposit_'' @ u @ ''_'' @ t))"
proof -
  obtain ts where ts: "str_split CHR ''_'' (''deposit_'' @ u @ ''_'' @ t)
         = ''deposit'' # takeWhile (\<lambda>x. x \<noteq> CHR ''_'') u # ts"
    using second_token by blast
  have ne: "''deposit_'' @ u @ ''_'' @ t \<noteq> []" by simp
  show ?thesis
    using process_callback_ok [OF assms(1) ne ts assms(2)] ts by simp
qed

text \<open>The example of the specification, evaluated.\<close>

theorem process_callback_normalizes_witness:
  "map_of spec_callback ''order_id''
     = Some (PStr (''deposit_'' @ ''abc123'' @ ''_'' @ ''1700000000.0''))
   \<and> truthy (example_env (\<lambda>_. Raised ''down'')) (dict_get spec_callback ''payment_status'')
   \<and> process_callback (example_env (\<lambda>_. Raised ''down'')) spec_callback example_world =
       (Inr (PDict
          [(''user_id'', PStr ''abc123''),
           (''status'', PStr ''finished''),
           (''amount'', PStr ''10.0''),
           (''currency'', PStr ''usdt''),
           (''timestamp'', PStr ''2023-11-14T00:00:00Z'')]), example_world)"
  using process_callback_normalizes
    [of spec_callback "''abc123''" "''1700000000.0''"
        "example_env (\<lambda>_. Raised ''down'')" example_world]
  by (simp add: spec_callback_def dict_get_def truthy_def)

text \<open>
  The claim as first stated asks only that the two keys be present. A callback that has
  both, with an \<^verbatim>\<open>order_id\<close> of the right form and an empty \<^verbatim>\<open>payment_status\<close>, is
  rejected by the guard \<^verbatim>\<open>if not order_id or not payment_status\<close>.
\<close>

theorem process_callback_empty_status_counterexample:
  "map_of [(''order_id'', PStr ''deposit_abc123_1700000000.0'' :: rat pyval),
           (''payment_status'', PStr [])] ''order_id''
     = Some (PStr (''deposit_'' @ ''abc123'' @ ''_'' @ ''1700000000.0''))
   \<and> map_of [(''order_id'', PStr ''deposit_abc123_1700000000.0'' :: rat pyval),
           (''payment_status'', PStr [])] ''payment_status'' = Some (PStr [])
   \<and> fst (process_callback (example_env (\<lambda>_. Raised ''down''))
        [(''order_id'', PStr ''deposit_abc123_1700000000.0''), (''payment_status'', PStr [])]
        example_world) = Inl (ValueError ''Invalid callback data'')"
  by (simp add: process_callback_def dict_get_def truthy_def)

section \<open>Creating a payment\<close>

lemma create_payment_sent:
  "sent (snd (create_payment env price_amount user_id w)) =
     sent w @
     [\<lparr>http_method = POST, url = BASE_URL (self w) @ ''/payment'', query = [],
       json_payload = Some (PDict
         [(''price_amount'', price_amount),
          (''price_currency'', PStr ''usd''),
          (''pay_currency'', PStr ''usdt''),
          (''order_id'',
             PStr (''deposit_'' @ py_str env user_id @ ''_''
                     @ py_str env (PFloat (now_timestamp env)))),
          (''order_description'', PStr (''Deposit for user '' @ py_str env user_id)),
          (''ipn_callback_url'', PStr ''https://your-domain.com/nowpayments/callback''),
          (''success_url'', PStr ''https://your-domain.com/deposit/success''),
          (''cancel_url'', PStr ''https://your-domain.com/deposit/cancel'')]),
       req_headers = headers (self w)\<rparr>]"
  by (simp add: create_payment_def requests_post_def send_def logger_error_def Let_def
      split: sum.splits)

lemma create_payment_order_id:
  "last_payload_field (snd (create_payment env price_amount (PStr u) w)) ''order_id''
     = PStr (''deposit_'' @ u @ ''_'' @ py_str env (PFloat (now_timestamp env)))"
  by (simp add: create_payment_sent last_payload_field_def dict_get_def py_str_def)



section \<open>The order id, out and back\<close>

lemma takeWhile_no_sep: "c \<notin> set u \<Longrightarrow> takeWhile (\<lambda>x. x \<noteq> c) u = u"
  by (induction u) auto

lemma takeWhile_sep: "c \<in> set u \<Longrightarrow> takeWhile (\<lambda>x. x \<noteq> c) u \<noteq> u"
  by (simp add: takeWhile_eq_all_conv)

lemma round_trip_token:
  "extracted_user_id
     (fst (process_callback env
        [(''order_id'', PStr (''deposit_'' @ u @ ''_'' @ t)),
         (''payment_status'', PStr ''finished'')] w))
   = Some (PStr (takeWhile (\<lambda>c. c \<noteq> CHR ''_'') u))"
proof -
  let ?cb = "[(''order_id'', PStr (''deposit_'' @ u @ ''_'' @ t)),
              (''payment_status'', PStr ''finished'')]"
  obtain ts where ts: "str_split CHR ''_'' (''deposit_'' @ u @ ''_'' @ t)
         = ''deposit'' # takeWhile (\<lambda>c. c \<noteq> CHR ''_'') u # ts"
    using second_token by blast
  have o: "map_of ?cb ''order_id'' = Some (PStr (''deposit_'' @ u @ ''_'' @ t))" by simp
  have ne: "''deposit_'' @ u @ ''_'' @ t \<noteq> []" by simp
  have tr: "truthy env (dict_get ?cb ''payment_status'')"
    by (simp add: dict_get_def truthy_def)
  show ?thesis
    unfolding process_callback_ok [OF o ne ts tr]
    by (simp add: extracted_user_id_def)
qed

text \<open>
  Claim C7. Take the \<^verbatim>\<open>order_id\<close> that \<open>create_payment\<close> put into its request for the
  user id \<open>u\<close>, and hand it to \<open>process_callback\<close> in a callback. The \<^verbatim>\<open>user_id\<close> that
  comes back is the part of \<open>u\<close> before its first underscore: it is \<open>u\<close> itself when
  \<open>u\<close> has no underscore, whatever the timestamp, and it differs from \<open>u\<close> when \<open>u\<close> has
  one.
\<close>

theorem order_id_round_trip:
  "let w' = snd (create_payment env price_amount (PStr u) w);
       callback = [(''order_id'', last_payload_field w' ''order_id''),
                   (''payment_status'', PStr ''finished'')];
       got = extracted_user_id (fst (process_callback env callback w'))
   in got = Some (PStr (takeWhile (\<lambda>c. c \<noteq> CHR ''_'') u))
      \<and> (CHR ''_'' \<notin> set u \<longrightarrow> got = Some (PStr u))
      \<and> (CHR ''_'' \<in> set u \<longrightarrow> got \<noteq> Some (PStr u))"
  unfolding Let_def create_payment_order_id round_trip_token
  using takeWhile_no_sep [of "CHR ''_''" u] takeWhile_sep [of "CHR ''_''" u]
  by simp

text \<open>The user id \<^verbatim>\<open>abc123\<close> comes back whole; of \<^verbatim>\<open>ab_c\<close> only \<^verbatim>\<open>ab\<close> comes back.\<close>

theorem order_id_round_trip_witness:
  "CHR ''_'' \<notin> set ''abc123''
   \<and> extracted_user_id (fst (process_callback (example_env (\<lambda>_. Raised ''down''))
         [(''order_id'',
           last_payload_field
             (snd (create_payment (example_env (\<lambda>_. Raised ''down'')) (PInt 10)
                     (PStr ''abc123'') example_world)) ''order_id''),
          (''payment_status'', PStr ''finished'')]
         (snd (create_payment (example_env (\<lambda>_. Raised ''down'')) (PInt 10)
                 (PStr ''abc123'') example_world))))
       = Some (PStr ''abc123'')
   \<and> CHR ''_'' \<in> set ''ab_c''
   \<and> extracted_user_id (fst (process_callback (example_env (\<lambda>_. Raised ''down''))
         [(''order_id'',
           last_payload_field
             (snd (create_payment (example_env (\<lambda>_. Raised ''down'')) (PInt 10)
                     (PStr ''ab_c'') example_world)) ''order_id''),
          (''payment_status'', PStr ''finished'')]
         (snd (create_payment (example_env (\<lambda>_. Raised ''down'')) (PInt 10)
                 (PStr ''ab_c'') example_world))))
       = Some (PStr ''ab'')"
proof -
  have a: "CHR ''_'' \<notin> set ''abc123''" by simp
  have b: "CHR ''_'' \<in> set ''ab_c''" by simp
  have t: "takeWhile (\<lambda>c. c \<noteq> CHR ''_'') ''ab_c'' = ''ab''" by simp
  note r1 = order_id_round_trip
      [of "example_env (\<lambda>_. Raised ''down'')" "PInt 10" "''abc123''" example_world,
       unfolded Let_def]
  note r2 = order_id_round_trip
      [of "example_env (\<lambda>_. Raised ''down'')" "PInt 10" "''ab_c''" example_world,
       unfolded Let_def t]
  from r1 a have 1: "extracted_user_id (fst (process_callback (example_env (\<lambda>_. Raised ''down''))
         [(''order_id'',
           last_payload_field
             (snd (create_payment (example_env (\<lambda>_. Raised ''down'')) (PInt 10)
                     (PStr ''abc123'') example_world)) ''order_id''),
          (''payment_status'', PStr ''finished'')]
         (snd (create_payment (example_env (\<lambda>_. Raised ''down'')) (PInt 10)
                 (PStr ''abc123'') example_world))))
       = Some (PStr ''abc123'')" by blast
  from r2 have 2: "extracted_user_id (fst (process_callback (example_env (\<lambda>_. Raised ''down''))
         [(''order_id'',
           last_payload_field
             (snd (create_payment (example_env (\<lambda>_. Raised ''down'')) (PInt 10)
                     (PStr ''ab_c'') example_world)) ''order_id''),
          (''payment_status'', PStr ''finished'')]
         (snd (create_payment (example_env (\<lambda>_. Raised ''down'')) (PInt 10)
                 (PStr ''ab_c'') example_world))))
       = Some (PStr ''ab'')" by blast
  from a 1 b 2 show ?thesis by blast
qed

section \<open>The client after a call\<close>

text \<open>
  Claim C8. None of the six methods writes the instance: after any call, \<^verbatim>\<open>BASE_URL\<close>,
  \<^verbatim>\<open>api_key\<close> and \<^verbatim>\<open>headers\<close> are what they were before it, whatever the remote service
  answers and whether the method returns or raises.
\<close>

theorem client_unchanged:
  "self (snd (create_payment env price_amount user_id w)) = self w
   \<and> self (snd (create_withdrawal env address amount user_id w)) = self w
   \<and> self (snd (get_payment_status env payment_id w)) = self w
   \<and> self (snd (get_minimum_payment_amount env w)) = self w
   \<and> self (snd (verify_callback env ipn_data w)) = self w
   \<and> self (snd (process_callback env callback_data w)) = self w"
  by (simp add: create_payment_def create_withdrawal_def get_payment_status_def
      get_minimum_payment_amount_def verify_callback_def process_callback_def
      requests_post_def requests_get_def send_def logger_error_def Let_def
      split: sum.splits)

text \<open>The client built by \<open>init\<close>, after each of the six calls against a failing network.\<close>

theorem client_unchanged_witness:
  "self (snd (create_payment (example_env (\<lambda>_. Raised ''down'')) (PInt 10) (PStr ''abc123'')
        example_world)) = init ''secret''
   \<and> self (snd (create_withdrawal (example_env (\<lambda>_. Raised ''down'')) (PStr ''T9yD'') (PInt 10)
        (PStr ''abc123'') example_world)) = init ''secret''
   \<and> self (snd (get_payment_status (example_env (\<lambda>_. Raised ''down'')) (PStr ''4711'')
        example_world)) = init ''secret''
   \<and> self (snd (get_minimum_payment_amount (example_env (\<lambda>_. Raised ''down''))
        example_world)) = init ''secret''
   \<and> self (snd (verify_callback (example_env (\<lambda>_. Raised ''down'')) [] example_world))
        = init ''secret''
   \<and> self (snd (process_callback (example_env (\<lambda>_. Raised ''down'')) spec_callback
        example_world)) = init ''secret''"
  using client_unchanged
    [of "example_env (\<lambda>_. Raised ''down'')" "PInt 10" "PStr ''abc123''" example_world
        "PStr ''T9yD''" "PInt 10" "PStr ''4711''" "[]" spec_callback]
  by (simp add: example_world_def)

section \<open>Requests and failing statuses\<close>

lemma create_withdrawal_sent:
  "sent (snd (create_withdrawal env address amount user_id w)) =
     sent w @
     [\<lparr>http_method = POST, url = BASE_URL (self w) @ ''/payout'', query = [],
       json_payload = Some (PDict
         [(''withdrawals'', PList [PDict
            [(''address'', address),
             (''currency'', PStr ''usdt''),
             (''amount'', amount),
             (''ipn_callback_url'',
                PStr ''https://your-domain.com/nowpayments/payout-callback''),
             (''payload'', PDict
                [(''user_id'', user_id),
                 (''timestamp'', PStr (now_isoformat env))])]])]),
       req_headers = headers (self w)\<rparr>]"
  by (simp add: create_withdrawal_def requests_post_def send_def logger_error_def Let_def
      split: sum.splits)

lemma get_payment_status_sent:
  "sent (snd (get_payment_status env payment_id w)) =
     sent w @
     [\<lparr>http_method = GET, url = BASE_URL (self w) @ ''/payment/'' @ py_str env payment_id,
       query = [], json_payload = None, req_headers = headers (self w)\<rparr>]"
  by (simp add: get_payment_status_def requests_get_def send_def logger_error_def Let_def
      split: sum.splits)

lemma get_minimum_payment_amount_sent:
  "sent (snd (get_minimum_payment_amount env w)) =
     sent w @
     [\<lparr>http_method = GET, url = BASE_URL (self w) @ ''/min-amount'',
       query = [(''currency_from'', ''usdt'')], json_payload = None,
       req_headers = headers (self w)\<rparr>]"
  by (simp add: get_minimum_payment_amount_def requests_get_def send_def logger_error_def
      Let_def split: sum.splits)

lemma verify_callback_sent:
  "sent (snd (verify_callback env ipn_data w)) =
     sent w @
     [\<lparr>http_method = GET,
       url = BASE_URL (self w) @ ''/payment-verification/''
               @ py_str env (dict_get ipn_data ''verification_key''),
       query = [], json_payload = None, req_headers = headers (self w)\<rparr>]"
  by (simp add: verify_callback_def requests_get_def send_def logger_error_def Let_def
      split: sum.splits)

lemma send_responded:
  "net env req = Responded r \<Longrightarrow> send env req w = (Inr r, w\<lparr>sent := sent w @ [req]\<rparr>)"
  by (simp add: send_def)

lemma send_raised:
  "net env req = Raised m
     \<Longrightarrow> send env req w = (Inl (RequestException m), w\<lparr>sent := sent w @ [req]\<rparr>)"
  by (simp add: send_def)

lemma raise_for_status_error:
  "400 \<le> status_code r \<Longrightarrow> status_code r < 600
     \<Longrightarrow> raise_for_status r = Inl (HTTPError (status_code r))"
  by (simp add: raise_for_status_def)

lemma raise_for_status_pass:
  "\<not> (400 \<le> status_code r \<and> status_code r < 600) \<Longrightarrow> raise_for_status r = Inr r"
  by (simp add: raise_for_status_def)

lemma HTTPError_caught: "is_RequestException env (HTTPError s)"
  by (simp add: is_RequestException_def)

lemma RequestException_caught: "is_RequestException env (RequestException m)"
  by (simp add: is_RequestException_def)

lemma create_payment_http_error:
  assumes "answered_with env (snd (create_payment env price_amount user_id w)) r"
    and "400 \<le> status_code r" and "status_code r < 600"
  shows "fst (create_payment env price_amount user_id w) = Inl (HTTPError (status_code r))
       \<and> logged (snd (create_payment env price_amount user_id w))
           = logged w @ [(''Error creating payment: '', HTTPError (status_code r))]"
proof -
  from assms(1) have "net env
     \<lparr>http_method = POST, url = BASE_URL (self w) @ ''/payment'', query = [],
       json_payload = Some (PDict
         [(''price_amount'', price_amount),
          (''price_currency'', PStr ''usd''),
          (''pay_currency'', PStr ''usdt''),
          (''order_id'',
             PStr (''deposit_'' @ py_str env user_id @ ''_''
                     @ py_str env (PFloat (now_timestamp env)))),
          (''order_description'', PStr (''Deposit for user '' @ py_str env user_id)),
          (''ipn_callback_url'', PStr ''https://your-domain.com/nowpayments/callback''),
          (''success_url'', PStr ''https://your-domain.com/deposit/success''),
          (''cancel_url'', PStr ''https://your-domain.com/deposit/cancel'')]),
       req_headers = headers (self w)\<rparr> = Responded r"
    by (simp add: answered_with_def create_payment_sent)
  then show ?thesis
    using assms(2,3)
    by (simp add: create_payment_def requests_post_def send_responded and_then_def
        raise_for_status_error HTTPError_caught logger_error_def Let_def)
qed

lemma create_withdrawal_http_error:
  assumes "answered_with env (snd (create_withdrawal env address amount user_id w)) r"
    and "400 \<le> status_code r" and "status_code r < 600"
  shows "fst (create_withdrawal env address amount user_id w) = Inl (HTTPError (status_code r))
       \<and> logged (snd (create_withdrawal env address amount user_id w))
           = logged w @ [(''Error creating withdrawal: '', HTTPError (status_code r))]"
proof -
  from assms(1) have "net env
     \<lparr>http_method = POST, url = BASE_URL (self w) @ ''/payout'', query = [],
       json_payload = Some (PDict
         [(''withdrawals'', PList [PDict
            [(''address'', address),
             (''currency'', PStr ''usdt''),
             (''amount'', amount),
             (''ipn_callback_url'',
                PStr ''https://your-domain.com/nowpayments/payout-callback''),
             (''payload'', PDict
                [(''user_id'', user_id),
                 (''timestamp'', PStr (now_isoformat env))])]])]),
       req_headers = headers (self w)\<rparr> = Responded r"
    by (simp add: answered_with_def create_withdrawal_sent)
  then show ?thesis
    using assms(2,3)
    by (simp add: create_withdrawal_def requests_post_def send_responded and_then_def
        raise_for_status_error HTTPError_caught logger_error_def Let_def)
qed

lemma get_payment_status_http_error:
  assumes "answered_with env (snd (get_payment_status env payment_id w)) r"
    and "400 \<le> status_code r" and "status_code r < 600"
  shows "fst (get_payment_status env payment_id w) = Inl (HTTPError (status_code r))
       \<and> logged (snd (get_payment_status env payment_id w))
           = logged w @ [(''Error getting payment status: '', HTTPError (status_code r))]"
proof -
  from assms(1) have "net env
     \<lparr>http_method = GET, url = BASE_URL (self w) @ ''/payment/'' @ py_str env payment_id,
       query = [], json_payload = None, req_headers = headers (self w)\<rparr> = Responded r"
    by (simp add: answered_with_def get_payment_status_sent)
  then show ?thesis
    using assms(2,3)
    by (simp add: get_payment_status_def requests_get_def send_responded and_then_def
        raise_for_status_error HTTPError_caught logger_error_def Let_def)
qed

lemma min_amount_answered:
  "answered_with env (snd (get_minimum_payment_amount env w)) r
     \<Longrightarrow> net env
       \<lparr>http_method = GET, url = BASE_URL (self w) @ ''/min-amount'',
         query = [(''currency_from'', ''usdt'')], json_payload = None,
         req_headers = headers (self w)\<rparr> = Responded r"
  by (simp add: answered_with_def get_minimum_payment_amount_sent)

lemma get_minimum_payment_amount_http_error:
  assumes "answered_with env (snd (get_minimum_payment_amount env w)) r"
    and "400 \<le> status_code r" and "status_code r < 600"
  shows "fst (get_minimum_payment_amount env w) = Inl (HTTPError (status_code r))
       \<and> logged (snd (get_minimum_payment_amount env w))
           = logged w @ [(''Error getting minimum payment amount: '', HTTPError (status_code r))]"
  using min_amount_answered [OF assms(1)] assms(2,3)
  by (simp add: get_minimum_payment_amount_def requests_get_def send_responded and_then_def
      raise_for_status_error HTTPError_caught logger_error_def Let_def)

text \<open>
  Claim C1, as amended. When the remote service answers the request with a client-error
  or server-error status (400 to 599), each of \<open>create_payment\<close>, \<open>create_withdrawal\<close>,
  \<open>get_payment_status\<close> and \<open>get_minimum_payment_amount\<close> raises the \<^verbatim>\<open>HTTPError\<close> of
  \<^verbatim>\<open>raise_for_status\<close>, which is a \<^verbatim>\<open>RequestException\<close>, after logging it once under the
  method's own prefix; it returns no value.
\<close>

theorem http_error_status_raises:
  assumes "400 \<le> status_code r" and "status_code r < 600"
  shows
    "(answered_with env (snd (create_payment env price_amount user_id w)) r \<longrightarrow>
        fst (create_payment env price_amount user_id w) = Inl (HTTPError (status_code r))
        \<and> logged (snd (create_payment env price_amount user_id w))
            = logged w @ [(''Error creating payment: '', HTTPError (status_code r))])
     \<and> (answered_with env (snd (create_withdrawal env address amount user_id w)) r \<longrightarrow>
        fst (create_withdrawal env address amount user_id w) = Inl (HTTPError (status_code r))
        \<and> logged (snd (create_withdrawal env address amount user_id w))
            = logged w @ [(''Error creating withdrawal: '', HTTPError (status_code r))])
     \<and> (answered_with env (snd (get_payment_status env payment_id w)) r \<longrightarrow>
        fst (get_payment_status env payment_id w) = Inl (HTTPError (status_code r))
        \<and> logged (snd (get_payment_status env payment_id w))
            = logged w @ [(''Error getting payment status: '', HTTPError (status_code r))])
     \<and> (answered_with env (snd (get_minimum_payment_amount env w)) r \<longrightarrow>
        fst (get_minimum_payment_amount env w) = Inl (HTTPError (status_code r))
        \<and> logged (snd (get_minimum_payment_amount env w))
            = logged w
              @ [(''Error getting minimum payment amount: '', HTTPError (status_code r))])
     \<and> is_RequestException env (HTTPError (status_code r))"
  using create_payment_http_error [OF _ assms, of env price_amount user_id w]
    create_withdrawal_http_error [OF _ assms, of env address amount user_id w]
    get_payment_status_http_error [OF _ assms, of env payment_id w]
    get_minimum_payment_amount_http_error [OF _ assms, of env w]
    HTTPError_caught [of env "status_code r"]
  by blast


text \<open>A service that answers every request with status 404.\<close>

theorem http_error_status_raises_witness:
  "400 \<le> status_code \<lparr>status_code = 404, body_json = Some (PDict [] :: rat pyval)\<rparr>
   \<and> status_code \<lparr>status_code = 404, body_json = Some (PDict [] :: rat pyval)\<rparr> < 600
   \<and> answered_with (example_env (\<lambda>_. Responded \<lparr>status_code = 404, body_json = Some (PDict [])\<rparr>))
        (snd (create_payment
           (example_env (\<lambda>_. Responded \<lparr>status_code = 404, body_json = Some (PDict [])\<rparr>))
           (PInt 10) (PStr ''abc123'') example_world))
        \<lparr>status_code = 404, body_json = Some (PDict [])\<rparr>
   \<and> fst (create_payment
        (example_env (\<lambda>_. Responded \<lparr>status_code = 404, body_json = Some (PDict [])\<rparr>))
        (PInt 10) (PStr ''abc123'') example_world) = Inl (HTTPError 404)
   \<and> fst (create_withdrawal
        (example_env (\<lambda>_. Responded \<lparr>status_code = 404, body_json = Some (PDict [])\<rparr>))
        (PStr ''T9yD'') (PInt 10) (PStr ''abc123'') example_world) = Inl (HTTPError 404)
   \<and> fst (get_payment_status
        (example_env (\<lambda>_. Responded \<lparr>status_code = 404, body_json = Some (PDict [])\<rparr>))
        (PStr ''4711'') example_world) = Inl (HTTPError 404)
   \<and> fst (get_minimum_payment_amount
        (example_env (\<lambda>_. Responded \<lparr>status_code = 404, body_json = Some (PDict [])\<rparr>))
        example_world) = Inl (HTTPError 404)
   \<and> logged (snd (get_minimum_payment_amount
        (example_env (\<lambda>_. Responded \<lparr>status_code = 404, body_json = Some (PDict [])\<rparr>))
        example_world))
       = [(''Error getting minimum payment amount: '', HTTPError 404)]"
proof -
  let ?r = "\<lparr>status_code = 404, body_json = Some (PDict [] :: rat pyval)\<rparr>"
  let ?E = "example_env (\<lambda>_. Responded ?r)"
  have h1: "400 \<le> status_code ?r" and h2: "status_code ?r < 600" by simp_all
  have n: "\<And>q. net ?E q = Responded ?r" by (simp add: example_env_def)
  have a1: "answered_with ?E (snd (create_payment ?E (PInt 10) (PStr ''abc123'') example_world)) ?r"
    by (simp add: answered_with_def create_payment_sent n)
  have a2: "answered_with ?E
      (snd (create_withdrawal ?E (PStr ''T9yD'') (PInt 10) (PStr ''abc123'') example_world)) ?r"
    by (simp add: answered_with_def create_withdrawal_sent n)
  have a3: "answered_with ?E (snd (get_payment_status ?E (PStr ''4711'') example_world)) ?r"
    by (simp add: answered_with_def get_payment_status_sent n)
  have a4: "answered_with ?E (snd (get_minimum_payment_amount ?E example_world)) ?r"
    by (simp add: answered_with_def get_minimum_payment_amount_sent n)
  have l: "logged example_world = []" by (simp add: example_world_def)
  show ?thesis
    using http_error_status_raises [OF h1 h2, of ?E "PInt 10" "PStr ''abc123''" example_world
        "PStr ''T9yD''" "PInt 10" "PStr ''4711''"] a1 a2 a3 a4 l
    by simp
qed

lemma create_payment_passes:
  assumes "answered_with env (snd (create_payment env price_amount user_id w)) r"
    and "\<not> (400 \<le> status_code r \<and> status_code r < 600)"
    and "body_json r = Some v"
  shows "fst (create_payment env price_amount user_id w) = Inr v
       \<and> logged (snd (create_payment env price_amount user_id w)) = logged w"
proof -
  from assms(1) have "net env
     \<lparr>http_method = POST, url = BASE_URL (self w) @ ''/payment'', query = [],
       json_payload = Some (PDict
         [(''price_amount'', price_amount),
          (''price_currency'', PStr ''usd''),
          (''pay_currency'', PStr ''usdt''),
          (''order_id'',
             PStr (''deposit_'' @ py_str env user_id @ ''_''
                     @ py_str env (PFloat (now_timestamp env)))),
          (''order_description'', PStr (''Deposit for user '' @ py_str env user_id)),
          (''ipn_callback_url'', PStr ''https://your-domain.com/nowpayments/callback''),
          (''success_url'', PStr ''https://your-domain.com/deposit/success''),
          (''cancel_url'', PStr ''https://your-domain.com/deposit/cancel'')]),
       req_headers = headers (self w)\<rparr> = Responded r"
    by (simp add: answered_with_def create_payment_sent)
  then show ?thesis
    using assms(3)
    by (simp add: create_payment_def requests_post_def send_responded and_then_def
        raise_for_status_pass [OF assms(2)] response_json_def Let_def)
qed

text \<open>
  The claim as first stated speaks of every status outside 200 to 299. Status 300 is
  outside, \<^verbatim>\<open>raise_for_status\<close> lets it pass, and \<open>create_payment\<close> returns the decoded
  body without raising or logging.
\<close>

theorem redirect_status_counterexample:
  "answered_with (example_env (\<lambda>_. Responded \<lparr>status_code = 300, body_json = Some (PDict [])\<rparr>))
        (snd (create_payment
           (example_env (\<lambda>_. Responded \<lparr>status_code = 300, body_json = Some (PDict [])\<rparr>))
           (PInt 10) (PStr ''abc123'') example_world))
        \<lparr>status_code = 300, body_json = Some (PDict [])\<rparr>
   \<and> \<not> (200 \<le> status_code \<lparr>status_code = 300, body_json = Some (PDict [] :: rat pyval)\<rparr>
         \<and> status_code \<lparr>status_code = 300, body_json = Some (PDict [] :: rat pyval)\<rparr> < 300)
   \<and> fst (create_payment
        (example_env (\<lambda>_. Responded \<lparr>status_code = 300, body_json = Some (PDict [])\<rparr>))
        (PInt 10) (PStr ''abc123'') example_world) = Inr (PDict [])
   \<and> logged (snd (create_payment
        (example_env (\<lambda>_. Responded \<lparr>status_code = 300, body_json = Some (PDict [])\<rparr>))
        (PInt 10) (PStr ''abc123'') example_world)) = []"
proof -
  let ?r = "\<lparr>status_code = 300, body_json = Some (PDict [] :: rat pyval)\<rparr>"
  let ?E = "example_env (\<lambda>_. Responded ?r)"
  have n: "\<And>q. net ?E q = Responded ?r" by (simp add: example_env_def)
  have a: "answered_with ?E (snd (create_payment ?E (PInt 10) (PStr ''abc123'') example_world)) ?r"
    by (simp add: answered_with_def create_payment_sent n)
  have s: "\<not> (400 \<le> status_code ?r \<and> status_code ?r < 600)" by simp
  have j: "body_json ?r = Some (PDict [])" by simp
  have l: "logged example_world = []" by (simp add: example_world_def)
  from create_payment_passes [OF a s j] a l show ?thesis by simp
qed

section \<open>Verifying a callback\<close>

lemma verify_callback_answered:
  "answered_with env (snd (verify_callback env ipn_data w)) r
     \<Longrightarrow> net env
       \<lparr>http_method = GET,
         url = BASE_URL (self w) @ ''/payment-verification/''
                 @ py_str env (dict_get ipn_data ''verification_key''),
         query = [], json_payload = None, req_headers = headers (self w)\<rparr> = Responded r"
  by (simp add: answered_with_def verify_callback_sent)

lemma verify_callback_failed:
  "failed_with env (snd (verify_callback env ipn_data w)) m
     \<Longrightarrow> net env
       \<lparr>http_method = GET,
         url = BASE_URL (self w) @ ''/payment-verification/''
                 @ py_str env (dict_get ipn_data ''verification_key''),
         query = [], json_payload = None, req_headers = headers (self w)\<rparr> = Raised m"
  by (simp add: failed_with_def verify_callback_sent)

lemma verify_callback_http_error:
  assumes "answered_with env (snd (verify_callback env ipn_data w)) r"
    and "400 \<le> status_code r" and "status_code r < 600"
  shows "fst (verify_callback env ipn_data w) = Inr False
       \<and> logged (snd (verify_callback env ipn_data w))
           = logged w @ [(''Error verifying callback: '', HTTPError (status_code r))]"
  using verify_callback_answered [OF assms(1)] assms(2,3)
  by (simp add: verify_callback_def requests_get_def send_responded and_then_def
      raise_for_status_error HTTPError_caught logger_error_def Let_def)

lemma verify_callback_network_error:
  assumes "failed_with env (snd (verify_callback env ipn_data w)) m"
  shows "fst (verify_callback env ipn_data w) = Inr False
       \<and> logged (snd (verify_callback env ipn_data w))
           = logged w @ [(''Error verifying callback: '', RequestException m)]"
  using verify_callback_failed [OF assms]
  by (simp add: verify_callback_def requests_get_def send_raised and_then_def
      RequestException_caught logger_error_def Let_def)

lemma verify_callback_passed:
  assumes "answered_with env (snd (verify_callback env ipn_data w)) r"
    and "\<not> (400 \<le> status_code r \<and> status_code r < 600)"
  shows "(fst (verify_callback env ipn_data w) = Inr True) = reports_confirmed r"
  using verify_callback_answered [OF assms(1)]
  by (auto simp: verify_callback_def requests_get_def send_responded and_then_def
      raise_for_status_pass [OF assms(2)] response_json_def py_get_def reports_confirmed_def
      Let_def split: option.splits pyval.splits)

text \<open>
  Claim C4, as amended. \<open>verify_callback\<close> issues one GET to
  \<^verbatim>\<open>/payment-verification/{verification_key}\<close>. It returns \<^verbatim>\<open>True\<close> exactly when the
  service answers with a status that \<^verbatim>\<open>raise_for_status\<close> lets pass (any status outside
  400 to 599) and the answer is a JSON object whose \<^verbatim>\<open>verification_status\<close> is
  \<^verbatim>\<open>confirmed\<close>. When the request fails, by a network error or by a status from 400 to
  599, it logs the error once and returns \<^verbatim>\<open>False\<close>; the exception does not reach the
  caller, unlike in the methods of claim C1.
\<close>

theorem verify_callback_result:
  "(answered_with env (snd (verify_callback env ipn_data w)) r \<longrightarrow>
      (fst (verify_callback env ipn_data w) = Inr True)
        = (\<not> (400 \<le> status_code r \<and> status_code r < 600) \<and> reports_confirmed r))
   \<and> (answered_with env (snd (verify_callback env ipn_data w)) r
        \<and> 400 \<le> status_code r \<and> status_code r < 600 \<longrightarrow>
      fst (verify_callback env ipn_data w) = Inr False
      \<and> logged (snd (verify_callback env ipn_data w))
          = logged w @ [(''Error verifying callback: '', HTTPError (status_code r))])
   \<and> (failed_with env (snd (verify_callback env ipn_data w)) m \<longrightarrow>
      fst (verify_callback env ipn_data w) = Inr False
      \<and> logged (snd (verify_callback env ipn_data w))
          = logged w @ [(''Error verifying callback: '', RequestException m)])
   \<and> sent (snd (verify_callback env ipn_data w)) =
       sent w @
       [\<lparr>http_method = GET,
         url = BASE_URL (self w) @ ''/payment-verification/''
                 @ py_str env (dict_get ipn_data ''verification_key''),
         query = [], json_payload = None, req_headers = headers (self w)\<rparr>]"
proof -
  have 1: "answered_with env (snd (verify_callback env ipn_data w)) r \<Longrightarrow>
      (fst (verify_callback env ipn_data w) = Inr True)
        = (\<not> (400 \<le> status_code r \<and> status_code r < 600) \<and> reports_confirmed r)"
  proof (cases "400 \<le> status_code r \<and> status_code r < 600")
    case True
    assume "answered_with env (snd (verify_callback env ipn_data w)) r"
    from verify_callback_http_error [OF this] True show ?thesis by simp
  next
    case False
    assume "answered_with env (snd (verify_callback env ipn_data w)) r"
    from verify_callback_passed [OF this False] False show ?thesis by simp
  qed
  show ?thesis
    using 1 verify_callback_http_error [of env ipn_data w r]
      verify_callback_network_error [of env ipn_data w m]
      verify_callback_sent [of env ipn_data w]
    by blast
qed


text \<open>
  Three services: one confirms with status 200, one answers 503, one cannot be reached.
\<close>

theorem verify_callback_result_witness:
  "answered_with
      (example_env (\<lambda>_. Responded
         \<lparr>status_code = 200,
          body_json = Some (PDict [(''verification_status'', PStr ''confirmed'')])\<rparr>))
      (snd (verify_callback
         (example_env (\<lambda>_. Responded
            \<lparr>status_code = 200,
             body_json = Some (PDict [(''verification_status'', PStr ''confirmed'')])\<rparr>))
         [(''verification_key'', PStr ''k1'')] example_world))
      \<lparr>status_code = 200,
       body_json = Some (PDict [(''verification_status'', PStr ''confirmed'')])\<rparr>
   \<and> fst (verify_callback
         (example_env (\<lambda>_. Responded
            \<lparr>status_code = 200,
             body_json = Some (PDict [(''verification_status'', PStr ''confirmed'')])\<rparr>))
         [(''verification_key'', PStr ''k1'')] example_world) = Inr True
   \<and> answered_with
      (example_env (\<lambda>_. Responded \<lparr>status_code = 503, body_json = None\<rparr>))
      (snd (verify_callback
         (example_env (\<lambda>_. Responded \<lparr>status_code = 503, body_json = None\<rparr>))
         [(''verification_key'', PStr ''k1'')] example_world))
      \<lparr>status_code = 503, body_json = None\<rparr>
   \<and> verify_callback
         (example_env (\<lambda>_. Responded \<lparr>status_code = 503, body_json = None\<rparr>))
         [(''verification_key'', PStr ''k1'')] example_world
       = (Inr False,
          \<lparr>self = init ''secret'',
           logged = [(''Error verifying callback: '', HTTPError 503)],
           sent = [\<lparr>http_method = GET,
                    url = ''https://api.nowpayments.io/v1/payment-verification/k1'',
                    query = [], json_payload = None,
                    req_headers = [(''x-api-key'', ''secret''),
                                   (''Content-Type'', ''application/json'')]\<rparr>]\<rparr>)
   \<and> failed_with (example_env (\<lambda>_. Raised ''timed out''))
      (snd (verify_callback (example_env (\<lambda>_. Raised ''timed out''))
         [(''verification_key'', PStr ''k1'')] example_world)) ''timed out''
   \<and> fst (verify_callback (example_env (\<lambda>_. Raised ''timed out''))
         [(''verification_key'', PStr ''k1'')] example_world) = Inr False
   \<and> logged (snd (verify_callback (example_env (\<lambda>_. Raised ''timed out''))
         [(''verification_key'', PStr ''k1'')] example_world))
       = [(''Error verifying callback: '', RequestException ''timed out'')]"
proof -
  let ?ok = "\<lparr>status_code = 200,
      body_json = Some (PDict [(''verification_status'', PStr ''confirmed'' :: rat pyval)])\<rparr>"
  let ?bad = "\<lparr>status_code = 503, body_json = None :: rat pyval option\<rparr>"
  let ?E1 = "example_env (\<lambda>_. Responded ?ok)"
  let ?E2 = "example_env (\<lambda>_. Responded ?bad)"
  let ?E3 = "example_env (\<lambda>_. Raised ''timed out'') :: rat env"
  let ?d = "[(''verification_key'', PStr ''k1'' :: rat pyval)]"
  have n1: "\<And>q. net ?E1 q = Responded ?ok" by (simp add: example_env_def)
  have n2: "\<And>q. net ?E2 q = Responded ?bad" by (simp add: example_env_def)
  have n3: "\<And>q. net ?E3 q = Raised ''timed out''" by (simp add: example_env_def)
  have a1: "answered_with ?E1 (snd (verify_callback ?E1 ?d example_world)) ?ok"
    by (simp add: answered_with_def verify_callback_sent n1)
  have a2: "answered_with ?E2 (snd (verify_callback ?E2 ?d example_world)) ?bad"
    by (simp add: answered_with_def verify_callback_sent n2)
  have a3: "failed_with ?E3 (snd (verify_callback ?E3 ?d example_world)) ''timed out''"
    by (simp add: failed_with_def verify_callback_sent n3)
  have c: "reports_confirmed ?ok" by (simp add: reports_confirmed_def)
  have l: "logged example_world = []" and s: "sent example_world = []"
    and f: "self example_world = init ''secret''"
    by (simp_all add: example_world_def)
  have u: "self (snd (verify_callback ?E2 ?d example_world)) = init ''secret''"
    by (simp add: verify_callback_def requests_get_def send_def logger_error_def Let_def f
        split: sum.splits)
  have k: "py_str ?E2 (dict_get ?d ''verification_key'') = ''k1''"
    by (simp add: py_str_def dict_get_def)
  have r1: "fst (verify_callback ?E1 ?d example_world) = Inr True"
    using verify_callback_result [of ?E1 ?d example_world ?ok "''x''"] a1 c by simp
  have r2: "fst (verify_callback ?E2 ?d example_world) = Inr False
      \<and> logged (snd (verify_callback ?E2 ?d example_world))
          = [(''Error verifying callback: '', HTTPError 503)]
      \<and> sent (snd (verify_callback ?E2 ?d example_world))
          = [\<lparr>http_method = GET,
               url = ''https://api.nowpayments.io/v1/payment-verification/k1'',
               query = [], json_payload = None,
               req_headers = [(''x-api-key'', ''secret''),
                              (''Content-Type'', ''application/json'')]\<rparr>]"
    using verify_callback_result [of ?E2 ?d example_world ?bad "''x''"] a2 l s k
    by (simp add: f init_def)
  have r3: "fst (verify_callback ?E3 ?d example_world) = Inr False
      \<and> logged (snd (verify_callback ?E3 ?d example_world))
          = [(''Error verifying callback: '', RequestException ''timed out'')]"
    using verify_callback_result [of ?E3 ?d example_world ?ok "''timed out''"] a3 l by simp
  have w2: "verify_callback ?E2 ?d example_world
       = (Inr False,
          \<lparr>self = init ''secret'',
           logged = [(''Error verifying callback: '', HTTPError 503)],
           sent = [\<lparr>http_method = GET,
                    url = ''https://api.nowpayments.io/v1/payment-verification/k1'',
                    query = [], json_payload = None,
                    req_headers = [(''x-api-key'', ''secret''),
                                   (''Content-Type'', ''application/json'')]\<rparr>]\<rparr>)"
    using r2 u by (cases "verify_callback ?E2 ?d example_world") (auto intro: world.equality)
  from a1 r1 a2 w2 a3 r3 show ?thesis by blast
qed

text \<open>
  The claim as first stated ties \<^verbatim>\<open>True\<close> to a status from 200 to 299 and \<^verbatim>\<open>False\<close> to
  every other status. A confirming answer with status 300 gives \<^verbatim>\<open>True\<close>.
\<close>

theorem verify_callback_redirect_counterexample:
  "answered_with
      (example_env (\<lambda>_. Responded
         \<lparr>status_code = 300,
          body_json = Some (PDict [(''verification_status'', PStr ''confirmed'')])\<rparr>))
      (snd (verify_callback
         (example_env (\<lambda>_. Responded
            \<lparr>status_code = 300,
             body_json = Some (PDict [(''verification_status'', PStr ''confirmed'')])\<rparr>))
         [(''verification_key'', PStr ''k1'')] example_world))
      \<lparr>status_code = 300,
       body_json = Some (PDict [(''verification_status'', PStr ''confirmed'')])\<rparr>
   \<and> \<not> (200 \<le> status_code
            \<lparr>status_code = 300,
             body_json = Some (PDict [(''verification_status'', PStr ''confirmed'' :: rat pyval)])\<rparr>
         \<and> status_code
            \<lparr>status_code = 300,
             body_json = Some (PDict [(''verification_status'', PStr ''confirmed'' :: rat pyval)])\<rparr>
           < 300)
   \<and> fst (verify_callback
         (example_env (\<lambda>_. Responded
            \<lparr>status_code = 300,
             body_json = Some (PDict [(''verification_status'', PStr ''confirmed'')])\<rparr>))
         [(''verification_key'', PStr ''k1'')] example_world) = Inr True"
proof -
  let ?r = "\<lparr>status_code = 300,
      body_json = Some (PDict [(''verification_status'', PStr ''confirmed'' :: rat pyval)])\<rparr>"
  let ?E = "example_env (\<lambda>_. Responded ?r)"
  let ?d = "[(''verification_key'', PStr ''k1'' :: rat pyval)]"
  have n: "\<And>q. net ?E q = Responded ?r" by (simp add: example_env_def)
  have a: "answered_with ?E (snd (verify_callback ?E ?d example_world)) ?r"
    by (simp add: answered_with_def verify_callback_sent n)
  have s: "\<not> (400 \<le> status_code ?r \<and> status_code ?r < 600)" by simp
  have c: "reports_confirmed ?r" by (simp add: reports_confirmed_def)
  from verify_callback_passed [OF a s] c a show ?thesis by simp
qed

section \<open>The minimum payment amount\<close>







end
